theory Spec2Isabelle
  imports Main "HOL-Library.Monad_Syntax"
begin

section \<open>Work dispatch: \<open>vision/servicenode/celery.py\<close>\<close>

subsection \<open>Queue names and task routes\<close>

definition TRANSFERS_QUEUE_NAME :: string where
  "TRANSFERS_QUEUE_NAME = ''transfers''"

definition BIDS_QUEUE_NAME :: string where
  "BIDS_QUEUE_NAME = ''bids''"

definition TRANSACTIONS_QUEUE_NAME :: string where
  "TRANSACTIONS_QUEUE_NAME = ''transactions''"

text \<open>
  The \<open>task_routes\<close> dictionary of \<open>celery_app.conf.update\<close>, in the order it is
  written, each key with the queue of its route.
\<close>

definition task_routes :: "(string \<times> string) list" where
  "task_routes =
     [(''vision.servicenode.business.plugins.execute_bid_plugin'', BIDS_QUEUE_NAME),
      (''vision.servicenode.business.transfers.*'', TRANSFERS_QUEUE_NAME),
      (''vision.common.blockchains.tasks._transaction_resubmission_task'',
         TRANSFERS_QUEUE_NAME),
      (''vision.servicenode.business.tasks._dependent_transaction_submission_task'',
         TRANSACTIONS_QUEUE_NAME)]"

definition task_default_queue :: string where
  "task_default_queue = ''transfers''"

text \<open>
  How Celery reads a route dictionary: a key holding the character \<open>*\<close> is a glob
  pattern, any other key is an exact task name. A task name is looked up among the
  exact names first, then matched against the patterns in order, and a name that no
  route matches goes to \<open>task_default_queue\<close>. In a glob, \<open>*\<close> stands for any run of
  characters and \<open>?\<close> for one character; no key of \<open>task_routes\<close> holds a \<open>[\<close>, so
  character classes are not modelled.
\<close>

definition is_glob :: "string \<Rightarrow> bool" where
  "is_glob k = (CHR ''*'' \<in> set k)"

fun glob_match :: "string \<Rightarrow> string \<Rightarrow> bool" where
  "glob_match [] s = (s = [])"
| "glob_match (p # ps) [] = (p = CHR ''*'' \<and> glob_match ps [])"
| "glob_match (p # ps) (c # cs) =
     (if p = CHR ''*'' then glob_match ps (c # cs) \<or> glob_match (p # ps) cs
      else (p = CHR ''?'' \<or> p = c) \<and> glob_match ps cs)"

definition route_for_task :: "(string \<times> string) list \<Rightarrow> string \<Rightarrow> string option" where
  "route_for_task routes name =
     (case map_of (filter (\<lambda>(k, q). \<not> is_glob k) routes) name of
        Some q \<Rightarrow> Some q
      | None \<Rightarrow>
          (case filter (\<lambda>(k, q). is_glob k \<and> glob_match k name) routes of
             [] \<Rightarrow> None
           | (k, q) # _ \<Rightarrow> Some q))"

definition queue_of_task :: "string \<Rightarrow> string" where
  "queue_of_task name =
     (case route_for_task task_routes name of
        Some q \<Rightarrow> q
      | None \<Rightarrow> task_default_queue)"

subsection \<open>Module initialisation: the purge of the bids queue\<close>

definition potential_celery_markers :: "string list" where
  "potential_celery_markers =
     [''celery'', ''worker'', ''beat'', ''flower'', ''report'', ''ping'']"

text \<open>\<open>is_main_module\<close>, from the module's \<open>__name__\<close> and \<open>sys.argv\<close>.\<close>

definition is_main_module :: "string \<Rightarrow> string list \<Rightarrow> bool" where
  "is_main_module module_name argv =
     (module_name = ''__main__''
      \<or> list_ex (\<lambda>marker. marker \<in> set argv) potential_celery_markers)"

text \<open>
  The broker, as the module meets it through \<open>celery_app.connection_for_write()\<close>: it
  can be reached or not, and it holds the queues by name, where \<open>None\<close> is a queue that
  does not exist and an existing queue holds its pending messages. \<open>queue_purge\<close> is the
  AMQP operation of the channel: it empties an existing queue and fails with
  \<open>NotFound\<close> (here with the name of the queue) on a missing one; with no connection
  it fails with another error.
\<close>

record 'm broker =
  reachable :: bool
  queues :: "string \<rightharpoonup> 'm list"

datatype amqp_error = NotFound string | OtherError

definition queue_purge :: "string \<Rightarrow> 'm broker \<Rightarrow> (amqp_error + unit) \<times> 'm broker" where
  "queue_purge name b =
     (if \<not> reachable b then (Inl OtherError, b)
      else
        (case queues b name of
           None \<Rightarrow> (Inl (NotFound name), b)
         | Some _ \<Rightarrow> (Inr (), b\<lparr>queues := (queues b)(name \<mapsto> [])\<rparr>)))"

text \<open>
  What the module does when it is loaded, as a trace of events beside the broker:
  the application is initialised or only the configuration loaded, and in the main
  module the bids queue is purged, a \<open>NotFound\<close> is logged as a warning
  (\<open>LogWarning error\<close> is the logging of \<open>str(error)\<close>), and the plugins are initialised
  with their worker started. The \<open>except\<close> clause names \<open>NotFound\<close> only: any other
  error of the purge ends the loading of the module.
\<close>

datatype startup_event =
    InitializeApplication
  | LoadConfig
  | QueuePurged string
  | LogWarning amqp_error
  | InitializePlugins

record 'm startup_state =
  startup_broker :: "'m broker"
  events :: "startup_event list"

definition celery_module_init ::
  "string \<Rightarrow> string list \<Rightarrow> 'm broker \<Rightarrow> amqp_error + 'm startup_state" where
  "celery_module_init module_name argv b =
     (let main = is_main_module module_name argv;
          ev0 = (if main then [InitializeApplication] else [LoadConfig])
      in if main then
           (case queue_purge BIDS_QUEUE_NAME b of
              (Inl (NotFound name), b') \<Rightarrow>
                Inr \<lparr>startup_broker = b',
                     events = ev0 @ [LogWarning (NotFound name), InitializePlugins]\<rparr>
            | (Inl OtherError, b') \<Rightarrow> Inl OtherError
            | (Inr _, b') \<Rightarrow>
                Inr \<lparr>startup_broker = b',
                     events = ev0 @ [QueuePurged BIDS_QUEUE_NAME, InitializePlugins]\<rparr>)
         else Inr \<lparr>startup_broker = b, events = ev0\<rparr>)"

section \<open>The REST API: \<open>vision/servicenode/restapi.py\<close>\<close>

subsection \<open>Strings\<close>

text \<open>Python's \<open>str\<close> of an integer, of a list of integers, and \<open>str.join\<close>.\<close>

fun str_nat :: "nat \<Rightarrow> string" where
  "str_nat n =
     (if n < 10 then [char_of (48 + n)]
      else str_nat (n div 10) @ [char_of (48 + n mod 10)])"

declare str_nat.simps [simp del]

definition str_int :: "int \<Rightarrow> string" where
  "str_int i = (if i < 0 then CHR ''-'' # str_nat (nat (- i)) else str_nat (nat i))"

fun join :: "string \<Rightarrow> string list \<Rightarrow> string" where
  "join sep [] = []"
| "join sep [x] = x"
| "join sep (x # y # ys) = x @ sep @ join sep (y # ys)"

definition str_int_list :: "int list \<Rightarrow> string" where
  "str_int_list xs = ''['' @ join '', '' (map str_int xs) @ '']''"

text \<open>\<open>str.lower\<close> on the ASCII letters, which is what an enum member's name holds.\<close>

definition lower_char :: "char \<Rightarrow> char" where
  "lower_char c =
     (if 65 \<le> (of_char c :: nat) \<and> (of_char c :: nat) \<le> 90
      then char_of ((of_char c :: nat) + 32) else c)"

definition lower :: "string \<Rightarrow> string" where
  "lower s = map lower_char s"

subsection \<open>Exceptions and responses\<close>

text \<open>
  The messages of a \<open>marshmallow.ValidationError\<close>: a list of messages for a field, or
  a dictionary from field names to messages (nested for a nested schema).
\<close>

datatype error_messages =
    Errors "string list"
  | Fields "(string \<times> error_messages) list"

text \<open>
  The exception classes that the handlers of this module tell apart, each with the
  text of \<open>str(error)\<close> (the messages for a validation error); \<open>OtherException\<close> is an
  exception of any other class.
\<close>

datatype exception =
    ValidationError error_messages
  | SenderNonceNotUniqueError string
  | TransferInteractorBidNotAcceptedError string
  | TransferInteractorResourceNotFoundError string
  | OtherException string

record transfer_status_response =
  response_task_id :: string
  response_source_blockchain_id :: int
  response_destination_blockchain_id :: int
  response_sender_address :: string
  response_recipient_address :: string
  response_source_token_address :: string
  response_destination_token_address :: string
  response_amount :: int
  response_fee :: int
  response_status :: string
  response_transfer_id :: "int option"
  response_transaction_id :: string

datatype 'b response_body =
    NoMessage
  | Message string
  | Messages error_messages
  | TransferResponse string
  | TransferStatusResponse transfer_status_response
  | BidsResponse 'b

datatype 'b http_response = HttpResponse (status_code: int) (body: "'b response_body")

text \<open>
  The response helpers of \<open>vision.common.restapi\<close> are imported by this module and are
  not part of the sources. Each of \<open>bad_request\<close>, \<open>not_acceptable\<close>, \<open>conflict\<close>,
  \<open>resource_not_found\<close> and \<open>internal_server_error\<close> ends the request with the HTTP
  status its name states and the given message (the classes 400, 406, 409, 404 and 500
  of the spec's request-boundary mapping and of the endpoints' docstrings), so that the
  statement after the handlers is not reached; \<open>ok_response\<close> answers 200 with the
  data.
\<close>

text \<open>Modelled from the spec: \<open>ok_response\<close> of \<open>vision.common.restapi\<close>, status 200.\<close>

definition ok_response :: "'b response_body \<Rightarrow> 'b http_response" where
  "ok_response data = HttpResponse 200 data"

text \<open>Modelled from the spec: \<open>bad_request\<close> of \<open>vision.common.restapi\<close>, status 400.\<close>

definition bad_request :: "error_messages \<Rightarrow> 'b http_response" where
  "bad_request error_messages = HttpResponse 400 (Messages error_messages)"

text \<open>
  Modelled from the spec: \<open>not_acceptable\<close> of \<open>vision.common.restapi\<close>, status 406;
  the module gives it the messages of a validation error or a string.
\<close>

definition not_acceptable :: "'b response_body \<Rightarrow> 'b http_response" where
  "not_acceptable error_messages = HttpResponse 406 error_messages"

text \<open>Modelled from the spec: \<open>conflict\<close> of \<open>vision.common.restapi\<close>, status 409.\<close>

definition conflict :: "string \<Rightarrow> 'b http_response" where
  "conflict error_message = HttpResponse 409 (Message error_message)"

text \<open>
  Modelled from the spec: \<open>resource_not_found\<close> of \<open>vision.common.restapi\<close>, status
  404.
\<close>

definition resource_not_found :: "string \<Rightarrow> 'b http_response" where
  "resource_not_found error_message = HttpResponse 404 (Message error_message)"

text \<open>
  Modelled from the spec: \<open>internal_server_error\<close> of \<open>vision.common.restapi\<close>, status
  500; the module gives it no message.
\<close>

definition internal_server_error :: "'b http_response" where
  "internal_server_error = HttpResponse 500 NoMessage"

subsection \<open>Requests\<close>

text \<open>
  A member of the \<open>Blockchain\<close> enumeration is held by its value, so \<open>Blockchain(id)\<close>
  and \<open>.value\<close> do not show in the model.
\<close>

type_synonym blockchain = int

text \<open>
  What the deserialisation of one schema field made of the request's value for it:
  \<open>Rejected\<close> with the library's message (the key is missing, or the value is not of
  the field's type), or \<open>Accepted\<close> with the value.
\<close>

datatype 'a field_input = Rejected string | Accepted 'a

record bid_arguments =
  arg_execution_time :: "int field_input"
  arg_bid_valid_until :: "int field_input"
  arg_fee :: "int field_input"
  arg_bid_signature :: "string field_input"
  arg_bid_unknown :: "string list"

record transfer_arguments =
  arg_source_blockchain_id :: "int field_input"
  arg_destination_blockchain_id :: "int field_input"
  arg_sender_address :: "string field_input"
  arg_recipient_address :: "string field_input"
  arg_source_token_address :: "string field_input"
  arg_destination_token_address :: "string field_input"
  arg_valid_until :: "int field_input"
  arg_amount :: "int field_input"
  arg_nonce :: "int field_input"
  arg_signature :: "string field_input"
  arg_bid :: "bid_arguments field_input"
  arg_unknown :: "string list"

record bid_data =
  data_execution_time :: int
  data_bid_valid_until :: int
  data_fee :: int
  data_bid_signature :: string

record transfer_data =
  data_source_blockchain_id :: int
  data_destination_blockchain_id :: int
  data_sender_address :: string
  data_recipient_address :: string
  data_source_token_address :: string
  data_destination_token_address :: string
  data_valid_until :: int
  data_amount :: int
  data_nonce :: int
  data_signature :: string
  data_bid :: bid_data
  data_time_received :: int

record service_node_bid =
  bid_source_blockchain :: blockchain
  bid_destination_blockchain :: blockchain
  bid_fee :: int
  bid_execution_time :: int
  bid_valid_until :: int
  bid_signature :: string

record initiate_transfer_request =
  source_blockchain :: blockchain
  destination_blockchain :: blockchain
  sender_address :: string
  recipient_address :: string
  source_token_address :: string
  destination_token_address :: string
  valid_until :: int
  amount :: int
  nonce :: int
  signature :: string
  bid :: service_node_bid
  time_received :: int

record 'st find_transfer_response =
  found_source_blockchain :: blockchain
  found_destination_blockchain :: blockchain
  found_sender_address :: string
  found_recipient_address :: string
  found_source_token_address :: string
  found_destination_token_address :: string
  found_amount :: int
  found_fee :: int
  found_status :: 'st
  found_transfer_id :: "int option"
  found_transaction_id :: "string option"

text \<open>
  What the module imports and calls: the \<open>Blockchain\<close> enumeration and the blockchain
  configuration, the address checks of the blockchain clients, the interactors (which
  read and write the state \<open>'s\<close> of the service node: its records and queues), the
  UUID field of the schema library with \<open>str\<close> of a UUID, and the transfer status
  enumeration with \<open>to_public_status\<close> and \<open>name\<close>.
\<close>

record ('s, 'u, 'st, 'b) environment =
  blockchain_values :: "int list"
  blockchain_name :: "blockchain \<Rightarrow> string"
  blockchain_active :: "blockchain \<Rightarrow> bool"
  blockchain_registered :: "blockchain \<Rightarrow> bool"
  is_valid_address :: "blockchain \<Rightarrow> string \<Rightarrow> bool"
  is_valid_recipient_address :: "blockchain \<Rightarrow> string \<Rightarrow> bool"
  initiate_transfer :: "initiate_transfer_request \<Rightarrow> 's \<Rightarrow> (exception + 'u) \<times> 's"
  find_transfer :: "'u \<Rightarrow> 's \<Rightarrow> (exception + 'st find_transfer_response) \<times> 's"
  get_current_bids :: "int \<Rightarrow> int \<Rightarrow> 's \<Rightarrow> (exception + 'b) \<times> 's"
  uuid_load :: "string \<Rightarrow> 'u option"
  uuid_str :: "'u \<Rightarrow> string"
  to_public_status :: "'st \<Rightarrow> 'st"
  status_name :: "'st \<Rightarrow> string"

subsection \<open>The schemas\<close>

text \<open>
  How the schema library loads a dictionary: every field is deserialised and its
  \<open>validate\<close> argument applied, an unknown key is an error, then the \<open>validates\<close>
  hooks run on the fields that were accepted, then the \<open>validates_schema\<close> hooks run
  unless an error was found so far, and the \<open>post_load\<close> hook runs when there is no
  error at all. Errors are collected under the field names, and a load with errors
  raises one \<open>ValidationError\<close> holding them.
\<close>

definition field_errors :: "string \<Rightarrow> 'a field_input \<Rightarrow> (string \<times> error_messages) list" where
  "field_errors name v =
     (case v of Rejected message \<Rightarrow> [(name, Errors [message])] | Accepted _ \<Rightarrow> [])"

definition unknown_errors :: "string list \<Rightarrow> (string \<times> error_messages) list" where
  "unknown_errors keys = map (\<lambda>k. (k, Errors [''Unknown field.''])) keys"

fun accepted :: "'a field_input \<Rightarrow> 'a option" where
  "accepted (Rejected _) = None"
| "accepted (Accepted x) = Some x"

definition validated :: "('a \<Rightarrow> string option) \<Rightarrow> 'a field_input \<Rightarrow> 'a field_input" where
  "validated validate v =
     (case v of
        Rejected message \<Rightarrow> Rejected message
      | Accepted x \<Rightarrow>
          (case validate x of Some message \<Rightarrow> Rejected message | None \<Rightarrow> Accepted x))"

text \<open>\<open>marshmallow.validate.OneOf\<close>: the message of the error, or \<open>None\<close>.\<close>

definition OneOf :: "int list \<Rightarrow> int \<Rightarrow> string option" where
  "OneOf choices v =
     (if v \<in> set choices then None
      else Some (''Must be one of: '' @ join '', '' (map str_int choices) @ ''.''))"

text \<open>\<open>_BidSchema\<close>, loaded as the nested field \<open>bid\<close>.\<close>

definition BidSchema_errors :: "bid_arguments \<Rightarrow> (string \<times> error_messages) list" where
  "BidSchema_errors b =
     field_errors ''execution_time'' (arg_execution_time b)
     @ field_errors ''valid_until'' (arg_bid_valid_until b)
     @ field_errors ''fee'' (arg_fee b)
     @ field_errors ''signature'' (arg_bid_signature b)
     @ unknown_errors (arg_bid_unknown b)"

definition BidSchema_data :: "bid_arguments \<Rightarrow> bid_data option" where
  "BidSchema_data b = do {
     execution_time \<leftarrow> accepted (arg_execution_time b);
     valid_until \<leftarrow> accepted (arg_bid_valid_until b);
     fee \<leftarrow> accepted (arg_fee b);
     signature \<leftarrow> accepted (arg_bid_signature b);
     Some \<lparr>data_execution_time = execution_time, data_bid_valid_until = valid_until,
           data_fee = fee, data_bid_signature = signature\<rparr>
   }"

definition nested_bid :: "bid_arguments field_input \<Rightarrow> (string \<times> error_messages) list" where
  "nested_bid v =
     (case v of
        Rejected message \<Rightarrow> [(''bid'', Errors [message])]
      | Accepted b \<Rightarrow>
          (if BidSchema_errors b = [] then [] else [(''bid'', Fields (BidSchema_errors b))]))"

text \<open>\<open>_TransferSchema\<close>: the fields in the order they are declared.\<close>

definition TransferSchema_field_errors ::
  "('s, 'u, 'st, 'b) environment \<Rightarrow> transfer_arguments \<Rightarrow> (string \<times> error_messages) list" where
  "TransferSchema_field_errors env args =
     field_errors ''source_blockchain_id'' (arg_source_blockchain_id args)
     @ field_errors ''destination_blockchain_id''
         (validated (OneOf (blockchain_values env)) (arg_destination_blockchain_id args))
     @ field_errors ''sender_address'' (arg_sender_address args)
     @ field_errors ''recipient_address'' (arg_recipient_address args)
     @ field_errors ''source_token_address'' (arg_source_token_address args)
     @ field_errors ''destination_token_address'' (arg_destination_token_address args)
     @ field_errors ''valid_until'' (arg_valid_until args)
     @ field_errors ''amount'' (arg_amount args)
     @ field_errors ''nonce'' (arg_nonce args)
     @ field_errors ''signature'' (arg_signature args)
     @ nested_bid (arg_bid args)
     @ unknown_errors (arg_unknown args)"

text \<open>
  The dictionary of the deserialised fields, when every field was accepted. The key
  \<open>time_received\<close> is the one \<open>post\<close> adds to the arguments: the time, an integer once
  it went through its field.
\<close>

definition TransferSchema_data ::
  "('s, 'u, 'st, 'b) environment \<Rightarrow> transfer_arguments \<Rightarrow> int \<Rightarrow> transfer_data option" where
  "TransferSchema_data env args time = do {
     source_blockchain_id \<leftarrow> accepted (arg_source_blockchain_id args);
     destination_blockchain_id \<leftarrow>
       accepted (validated (OneOf (blockchain_values env))
         (arg_destination_blockchain_id args));
     sender_address \<leftarrow> accepted (arg_sender_address args);
     recipient_address \<leftarrow> accepted (arg_recipient_address args);
     source_token_address \<leftarrow> accepted (arg_source_token_address args);
     destination_token_address \<leftarrow> accepted (arg_destination_token_address args);
     valid_until \<leftarrow> accepted (arg_valid_until args);
     amount \<leftarrow> accepted (arg_amount args);
     nonce \<leftarrow> accepted (arg_nonce args);
     signature \<leftarrow> accepted (arg_signature args);
     bid_args \<leftarrow> accepted (arg_bid args);
     bid \<leftarrow> BidSchema_data bid_args;
     Some \<lparr>data_source_blockchain_id = source_blockchain_id,
           data_destination_blockchain_id = destination_blockchain_id,
           data_sender_address = sender_address,
           data_recipient_address = recipient_address,
           data_source_token_address = source_token_address,
           data_destination_token_address = destination_token_address,
           data_valid_until = valid_until,
           data_amount = amount,
           data_nonce = nonce,
           data_signature = signature,
           data_bid = bid,
           data_time_received = time\<rparr>
   }"

text \<open>
  \<open>__validate_source_blockchain_id\<close>, the \<open>validates\<close> hook of the field: the message
  of the \<open>ValidationError\<close> it raises, or \<open>None\<close>.
\<close>

definition validate_source_blockchain_id ::
  "('s, 'u, 'st, 'b) environment \<Rightarrow> int \<Rightarrow> string option" where
  "validate_source_blockchain_id env blockchain_id =
     (let supported_blockchains_ids = blockchain_values env
      in if blockchain_id \<notin> set supported_blockchains_ids then
           Some (''This is not a supported blockchain. Must be one of: ''
                 @ str_int_list supported_blockchains_ids @ ''.'')
         else
           (let active = blockchain_active env blockchain_id;
                registered = blockchain_registered env blockchain_id
            in if \<not> active \<or> \<not> registered then Some ''This is not an active blockchain.''
               else None))"

definition source_blockchain_id_errors ::
  "('s, 'u, 'st, 'b) environment \<Rightarrow> transfer_arguments \<Rightarrow> (string \<times> error_messages) list" where
  "source_blockchain_id_errors env args =
     (case arg_source_blockchain_id args of
        Rejected _ \<Rightarrow> []
      | Accepted blockchain_id \<Rightarrow>
          (case validate_source_blockchain_id env blockchain_id of
             Some message \<Rightarrow> [(''source_blockchain_id'', Errors [message])]
           | None \<Rightarrow> []))"

text \<open>
  The checks of \<open>__validate_schema\<close>: each gives the field name and the message of the
  \<open>ValidationError\<close> it raises, or \<open>None\<close>.
\<close>

definition check_valid_sender_address ::
  "('s, 'u, 'st, 'b) environment \<Rightarrow> blockchain \<Rightarrow> string \<Rightarrow> (string \<times> string) option" where
  "check_valid_sender_address env source address =
     (if \<not> is_valid_address env source address then
        Some (''sender_address'',
              ''sender address must be a valid blockchain address on ''
              @ blockchain_name env source)
      else None)"

definition check_valid_recipient_address ::
  "('s, 'u, 'st, 'b) environment \<Rightarrow> blockchain \<Rightarrow> string \<Rightarrow> (string \<times> string) option" where
  "check_valid_recipient_address env destination address =
     (if \<not> is_valid_recipient_address env destination address then
        Some (''recipient_address'',
              ''recipient address must be a valid blockchain address, ''
              @ ''different from the 0 address on ''
              @ blockchain_name env destination)
      else None)"

definition check_valid_source_token_address ::
  "('s, 'u, 'st, 'b) environment \<Rightarrow> blockchain \<Rightarrow> string \<Rightarrow> (string \<times> string) option" where
  "check_valid_source_token_address env source address =
     (if \<not> is_valid_address env source address then
        Some (''source_token_address'',
              ''source token address must be a valid blockchain address on ''
              @ blockchain_name env source)
      else None)"

definition check_valid_destination_token_address ::
  "('s, 'u, 'st, 'b) environment \<Rightarrow> blockchain \<Rightarrow> string \<Rightarrow> (string \<times> string) option" where
  "check_valid_destination_token_address env destination address =
     (if \<not> is_valid_address env destination address then
        Some (''destination_token_address'',
              ''destination token address must be a valid blockchain address on ''
              @ blockchain_name env destination)
      else None)"

definition check_amount :: "int \<Rightarrow> (string \<times> string) option" where
  "check_amount n =
     (if n \<le> 0 then Some (''amount'', ''amount must be greater than 0'') else None)"

definition validate_schema ::
  "('s, 'u, 'st, 'b) environment \<Rightarrow> transfer_data \<Rightarrow> (string \<times> string) option" where
  "validate_schema env data =
     (let source = data_source_blockchain_id data;
          destination = data_destination_blockchain_id data
      in case check_valid_sender_address env source
                (data_sender_address data) of
           Some error \<Rightarrow> Some error
         | None \<Rightarrow>
       (case check_valid_recipient_address env destination
                (data_recipient_address data) of
           Some error \<Rightarrow> Some error
         | None \<Rightarrow>
       (case check_valid_source_token_address env source
                (data_source_token_address data) of
           Some error \<Rightarrow> Some error
         | None \<Rightarrow>
       (case check_valid_destination_token_address env destination
                (data_destination_token_address data) of
           Some error \<Rightarrow> Some error
         | None \<Rightarrow> check_amount (data_amount data)))))"

definition make_initiate_transfer_request :: "transfer_data \<Rightarrow> initiate_transfer_request" where
  "make_initiate_transfer_request data =
     (let source = data_source_blockchain_id data;
          destination = data_destination_blockchain_id data
      in \<lparr>source_blockchain = source,
          destination_blockchain = destination,
          sender_address = data_sender_address data,
          recipient_address = data_recipient_address data,
          source_token_address = data_source_token_address data,
          destination_token_address = data_destination_token_address data,
          valid_until = data_valid_until data,
          amount = data_amount data,
          nonce = data_nonce data,
          signature = data_signature data,
          bid = \<lparr>bid_source_blockchain = source,
                  bid_destination_blockchain = destination,
                  bid_fee = data_fee (data_bid data),
                  bid_execution_time = data_execution_time (data_bid data),
                  bid_valid_until = data_bid_valid_until (data_bid data),
                  bid_signature = data_bid_signature (data_bid data)\<rparr>,
          time_received = data_time_received data\<rparr>)"

text \<open>
  \<open>_TransferSchema().load\<close>: the messages of the \<open>ValidationError\<close>, or the request
  made by the \<open>post_load\<close> hook. The schema validator and the hook run only when no
  field had an error, which is when the dictionary holds every key.
\<close>

definition TransferSchema_load ::
  "('s, 'u, 'st, 'b) environment \<Rightarrow> transfer_arguments \<Rightarrow> int
     \<Rightarrow> error_messages + initiate_transfer_request" where
  "TransferSchema_load env args time =
     (let errors = TransferSchema_field_errors env args
                   @ source_blockchain_id_errors env args
      in case (errors, TransferSchema_data env args time) of
           ([], Some data) \<Rightarrow>
             (case validate_schema env data of
                Some (field_name, message) \<Rightarrow> Inl (Fields [(field_name, Errors [message])])
              | None \<Rightarrow> Inr (make_initiate_transfer_request data))
         | _ \<Rightarrow> Inl (Fields errors))"

text \<open>\<open>_TransferStatusSchema().load\<close>, with its hook \<open>make_task_id\<close>.\<close>

definition TransferStatusSchema_load ::
  "('s, 'u, 'st, 'b) environment \<Rightarrow> string \<Rightarrow> error_messages + 'u" where
  "TransferStatusSchema_load env task_id =
     (case uuid_load env task_id of
        None \<Rightarrow> Inl (Fields [(''task_id'', Errors [''Not a valid UUID.''])])
      | Some task_id_uuid \<Rightarrow> Inr task_id_uuid)"

text \<open>\<open>_BidsSchema().load\<close> on the query arguments.\<close>

record bids_arguments =
  arg_source_blockchain :: "int field_input"
  arg_destination_blockchain :: "int field_input"
  arg_bids_unknown :: "string list"

definition BidsSchema_load ::
  "('s, 'u, 'st, 'b) environment \<Rightarrow> bids_arguments \<Rightarrow> error_messages + int \<times> int" where
  "BidsSchema_load env args =
     (let source = validated (OneOf (blockchain_values env)) (arg_source_blockchain args);
          destination =
            validated (OneOf (blockchain_values env)) (arg_destination_blockchain args);
          errors = field_errors ''source_blockchain'' source
                   @ field_errors ''destination_blockchain'' destination
                   @ unknown_errors (arg_bids_unknown args)
      in case (errors, accepted source, accepted destination) of
           ([], Some s, Some d) \<Rightarrow> Inr (s, d)
         | _ \<Rightarrow> Inl (Fields errors))"

subsection \<open>The resources\<close>

text \<open>
  The body of a request to \<open>/transfer\<close> as \<open>flask_restful.request.json\<close> gives it:
  reading it raises (the body is not JSON), or it is a JSON value that is not an
  object, or it is an object, described by what the schema's fields make of it.
\<close>

datatype request_json = JsonUnreadable | JsonNotAnObject | JsonObject transfer_arguments

text \<open>
  The handlers of \<open>_Transfer.post\<close> for an exception of \<open>initiate_transfer\<close>, in the
  order of the \<open>except\<close> clauses.
\<close>

fun Transfer_post_except :: "initiate_transfer_request \<Rightarrow> exception \<Rightarrow> 'b http_response" where
  "Transfer_post_except request (ValidationError messages) =
     not_acceptable (Messages messages)"
| "Transfer_post_except request (SenderNonceNotUniqueError error) =
     conflict (''sender nonce '' @ str_int (nonce request) @ '' is not unique'')"
| "Transfer_post_except request (TransferInteractorBidNotAcceptedError error) =
     not_acceptable (Message (''bid has been rejected by service node: '' @ error))"
| "Transfer_post_except request _ = internal_server_error"

text \<open>
  \<open>_Transfer.post\<close>. Reading the body and merging \<open>time_received\<close> into it are inside
  the \<open>try\<close>: a body that cannot be read, and a value that is not a dictionary (the
  \<open>|\<close> raises \<open>TypeError\<close>), reach \<open>except Exception\<close>.
\<close>

definition Transfer_post ::
  "('s, 'u, 'st, 'b) environment \<Rightarrow> request_json \<Rightarrow> int \<Rightarrow> 's \<Rightarrow> 'b http_response \<times> 's" where
  "Transfer_post env json time s =
     (case json of
        JsonUnreadable \<Rightarrow> (internal_server_error, s)
      | JsonNotAnObject \<Rightarrow> (internal_server_error, s)
      | JsonObject arguments \<Rightarrow>
          (case TransferSchema_load env arguments time of
             Inl messages \<Rightarrow> (not_acceptable (Messages messages), s)
           | Inr request \<Rightarrow>
               (case initiate_transfer env request s of
                  (Inl error, s') \<Rightarrow> (Transfer_post_except request error, s')
                | (Inr task_id, s') \<Rightarrow>
                    (ok_response (TransferResponse (uuid_str env task_id)), s'))))"

text \<open>The handlers of \<open>_TransferStatus.get\<close> for an exception of \<open>find_transfer\<close>.\<close>

fun TransferStatus_get_except :: "string \<Rightarrow> exception \<Rightarrow> 'b http_response" where
  "TransferStatus_get_except task_id (ValidationError messages) =
     resource_not_found (''task ID '' @ task_id @ '' is not a UUID'')"
| "TransferStatus_get_except task_id (TransferInteractorResourceNotFoundError error) =
     resource_not_found (''task ID '' @ task_id @ '' is unknown'')"
| "TransferStatus_get_except task_id _ = internal_server_error"

definition TransferStatus_get ::
  "('s, 'u, 'st, 'b) environment \<Rightarrow> string \<Rightarrow> 's \<Rightarrow> 'b http_response \<times> 's" where
  "TransferStatus_get env task_id s =
     (case TransferStatusSchema_load env task_id of
        Inl messages \<Rightarrow>
          (resource_not_found (''task ID '' @ task_id @ '' is not a UUID''), s)
      | Inr task_id_uuid \<Rightarrow>
          (case find_transfer env task_id_uuid s of
             (Inl error, s') \<Rightarrow> (TransferStatus_get_except task_id error, s')
           | (Inr find_transfer_response, s') \<Rightarrow>
               (ok_response (TransferStatusResponse
                  \<lparr>response_task_id = uuid_str env task_id_uuid,
                   response_source_blockchain_id =
                     found_source_blockchain find_transfer_response,
                   response_destination_blockchain_id =
                     found_destination_blockchain find_transfer_response,
                   response_sender_address = found_sender_address find_transfer_response,
                   response_recipient_address =
                     found_recipient_address find_transfer_response,
                   response_source_token_address =
                     found_source_token_address find_transfer_response,
                   response_destination_token_address =
                     found_destination_token_address find_transfer_response,
                   response_amount = found_amount find_transfer_response,
                   response_fee = found_fee find_transfer_response,
                   response_status =
                     lower (status_name env
                       (to_public_status env (found_status find_transfer_response))),
                   response_transfer_id = found_transfer_id find_transfer_response,
                   response_transaction_id =
                     (case found_transaction_id find_transfer_response of
                        None \<Rightarrow> []
                      | Some transaction_id \<Rightarrow> transaction_id)\<rparr>),
                s')))"

text \<open>\<open>_Bids.get\<close>.\<close>

fun Bids_get_except :: "exception \<Rightarrow> 'b http_response" where
  "Bids_get_except (ValidationError messages) = bad_request messages"
| "Bids_get_except _ = internal_server_error"

definition Bids_get ::
  "('s, 'u, 'st, 'b) environment \<Rightarrow> bids_arguments \<Rightarrow> 's \<Rightarrow> 'b http_response \<times> 's" where
  "Bids_get env query_arguments s =
     (case BidsSchema_load env query_arguments of
        Inl messages \<Rightarrow> (bad_request messages, s)
      | Inr (source, destination) \<Rightarrow>
          (case get_current_bids env source destination s of
             (Inl error, s') \<Rightarrow> (Bids_get_except error, s')
           | (Inr bids, s') \<Rightarrow> (ok_response (BidsResponse bids), s')))"

section \<open>The blockchain client: \<open>vision/servicenode/blockchains/base.py\<close>\<close>

text \<open>
  Modelled from the spec: \<open>TransactionStatus\<close> of \<open>vision.common.entities\<close> is not part
  of the sources. These are the two terminal outcomes the spec gives the field
  \<open>transaction_status\<close>, the ones the tests run
  \<open>test_get_transfer_submission_status_completed\<close> with.
\<close>

datatype transaction_status = CONFIRMED | REVERTED

text \<open>
  Modelled from the spec: the error classes \<open>BlockchainUtilitiesError\<close>,
  \<open>BlockchainClientError\<close> and \<open>UnresolvableTransferSubmissionError\<close>, which the tests
  import and the sources do not hold.
\<close>

datatype error_class =
    BlockchainUtilitiesError
  | BlockchainClientError
  | UnresolvableTransferSubmissionError

text \<open>
  Modelled from the spec: an error of one of these classes, with the error that was
  being handled when it was raised (its \<open>__context__\<close>, which
  \<open>test_init_error\<close> reads). The spec gives the messages of the errors no text, so
  they are left out.
\<close>

datatype blockchain_error =
  BlockchainError (error_class: error_class) (error_context: "blockchain_error option")

text \<open>
  Modelled from the spec: the chain configuration of a client, which the module reads
  through \<open>_get_config\<close>; the keys are those of \<open>_MOCK_CONFIG\<close> in the tests.
\<close>

record blockchain_config =
  provider :: string
  fallback_providers :: "string list"
  average_block_time :: int
  confirmations :: int
  chain_id :: int
  vsn_token :: string
  private_key :: string
  private_key_password :: string

text \<open>
  Modelled from the spec: \<open>BlockchainUtilities.TransactionSubmissionStatusResponse\<close> of
  \<open>vision.common.blockchains.base\<close>, which the tests build as
  \<open>TransactionSubmissionStatusResponse(False)\<close> and
  \<open>TransactionSubmissionStatusResponse(True, transaction_status, _TRANSACTION_ID)\<close>.
\<close>

record utilities_status_response =
  utilities_transaction_submission_completed :: bool
  utilities_transaction_status :: "transaction_status option"
  utilities_transaction_id :: "string option"

text \<open>
  Modelled from the spec: the response of \<open>get_transfer_submission_status\<close>, with the
  fields of the spec's data model, absent ones being \<open>None\<close>.
\<close>

record transfer_submission_status_response =
  transaction_submission_completed :: bool
  transaction_status :: "transaction_status option"
  transaction_id :: "string option"
  on_chain_transfer_id :: "int option"

text \<open>
  Modelled from the spec: the chain-access utility, of which the client calls
  \<open>get_transaction_submission_status\<close> with the internal transaction ID.
\<close>

record 'i blockchain_utilities =
  get_transaction_submission_status :: "'i \<Rightarrow> blockchain_error + utilities_status_response"

text \<open>
  Modelled from the spec: the client, with its configuration, its utility and its
  chain-specific read \<open>_read_on_chain_transfer_id\<close> of a transaction ID and the
  destination blockchain.
\<close>

record 'i blockchain_client =
  client_config :: blockchain_config
  client_utilities :: "'i blockchain_utilities"
  read_on_chain_transfer_id :: "string \<Rightarrow> blockchain \<Rightarrow> blockchain_error + int"

text \<open>
  Modelled from the spec: the error factory \<open>_create_error\<close> of the client, which makes
  the component's one coarse error.
\<close>

definition create_error :: blockchain_error where
  "create_error = BlockchainError BlockchainClientError None"

text \<open>
  Modelled from the spec: the making of the error that says that the status could not
  be determined.
\<close>

definition create_unresolvable_transfer_submission_error :: blockchain_error where
  "create_unresolvable_transfer_submission_error =
     BlockchainError UnresolvableTransferSubmissionError None"

text \<open>
  Modelled from the spec: the raising of an error while another one is handled, which
  keeps the handled one as the context of the raised one.
\<close>

fun raise_while_handling :: "blockchain_error \<Rightarrow> blockchain_error \<Rightarrow> blockchain_error" where
  "raise_while_handling (BlockchainError c _) handled = BlockchainError c (Some handled)"

text \<open>
  Modelled from the spec: the constructor of \<open>BlockchainClient\<close>, which the sources do
  not hold. It reads the configuration and initialises the chain-access utility; when
  \<open>initialize_blockchain_utilities\<close> fails, the construction fails with the error of
  \<open>_create_error\<close>, raised while the failure is handled.
\<close>

definition BlockchainClient_init ::
  "(blockchain_config \<Rightarrow> blockchain_error + 'i blockchain_utilities)
     \<Rightarrow> (string \<Rightarrow> blockchain \<Rightarrow> blockchain_error + int)
     \<Rightarrow> blockchain_config \<Rightarrow> blockchain_error + 'i blockchain_client" where
  "BlockchainClient_init initialize_blockchain_utilities read config =
     (case initialize_blockchain_utilities config of
        Inl error \<Rightarrow>
          Inl (raise_while_handling create_error error)
      | Inr utilities \<Rightarrow>
          Inr \<lparr>client_config = config, client_utilities = utilities,
               read_on_chain_transfer_id = read\<rparr>)"

text \<open>
  Modelled from the spec: \<open>get_transfer_submission_status\<close>, which the sources do not
  hold. It asks the utility for the submission status of the transaction of the
  internal transaction ID. A failure of the utility becomes an
  \<open>UnresolvableTransferSubmissionError\<close>. A status that is not completed gives the
  response with \<open>transaction_submission_completed = False\<close> and nothing else. A
  completed status gives the transaction status and the transaction ID, and only for
  \<open>CONFIRMED\<close> the on-chain transfer ID is read with \<open>_read_on_chain_transfer_id\<close>,
  whose failure is an underlying failure too. The spec's three outcomes (pending,
  terminal status known, status not determinable) are the whole contract, so a
  completed status without its transaction status or ID is not determinable.
\<close>

definition get_transfer_submission_status ::
  "'i blockchain_client \<Rightarrow> 'i \<Rightarrow> blockchain
     \<Rightarrow> blockchain_error + transfer_submission_status_response" where
  "get_transfer_submission_status client internal_transaction_id destination =
     (case get_transaction_submission_status (client_utilities client)
             internal_transaction_id of
        Inl error \<Rightarrow>
          Inl (raise_while_handling create_unresolvable_transfer_submission_error error)
      | Inr status_response \<Rightarrow>
          (if \<not> utilities_transaction_submission_completed status_response then
             Inr \<lparr>transaction_submission_completed = False, transaction_status = None,
                  transaction_id = None, on_chain_transfer_id = None\<rparr>
           else
             (case (utilities_transaction_status status_response,
                    utilities_transaction_id status_response) of
                (Some CONFIRMED, Some tx) \<Rightarrow>
                  (case read_on_chain_transfer_id client tx destination of
                     Inl error \<Rightarrow>
                       Inl (raise_while_handling
                              create_unresolvable_transfer_submission_error error)
                   | Inr transfer_id \<Rightarrow>
                       Inr \<lparr>transaction_submission_completed = True,
                            transaction_status = Some CONFIRMED,
                            transaction_id = Some tx,
                            on_chain_transfer_id = Some transfer_id\<rparr>)
              | (Some REVERTED, Some tx) \<Rightarrow>
                  Inr \<lparr>transaction_submission_completed = True,
                       transaction_status = Some REVERTED,
                       transaction_id = Some tx,
                       on_chain_transfer_id = None\<rparr>
              | _ \<Rightarrow> Inl create_unresolvable_transfer_submission_error)))"

section \<open>Fixtures\<close>

text \<open>
  Concrete collaborators on which the theorems below are run, in the manner of the
  mocks of the tests. The state of \<open>mock_environment\<close> is the list of the transfer
  requests admitted so far, a task ID is the position of its request in that list, and
  the one task ID the UUID field accepts is written as the nil UUID.
\<close>

definition mock_find_transfer_response :: "initiate_transfer_request \<Rightarrow> string find_transfer_response" where
  "mock_find_transfer_response request =
     \<lparr>found_source_blockchain = source_blockchain request,
      found_destination_blockchain = destination_blockchain request,
      found_sender_address = sender_address request,
      found_recipient_address = recipient_address request,
      found_source_token_address = source_token_address request,
      found_destination_token_address = destination_token_address request,
      found_amount = amount request,
      found_fee = bid_fee (bid request),
      found_status = ''ACCEPTED'',
      found_transfer_id = None,
      found_transaction_id = None\<rparr>"

definition mock_environment ::
  "(initiate_transfer_request list, nat, string, unit) environment" where
  "mock_environment =
     \<lparr>blockchain_values = [0, 1, 2],
      blockchain_name = (\<lambda>b. ''ETHEREUM''),
      blockchain_active = (\<lambda>b. True),
      blockchain_registered = (\<lambda>b. True),
      is_valid_address = (\<lambda>b address. address \<noteq> []),
      is_valid_recipient_address = (\<lambda>b address. address \<noteq> []),
      initiate_transfer = (\<lambda>request s. (Inr (length s), s @ [request])),
      find_transfer =
        (\<lambda>task_id s.
           (if task_id < length s then Inr (mock_find_transfer_response (s ! task_id))
            else Inl (TransferInteractorResourceNotFoundError ''unknown transfer''),
            s)),
      get_current_bids = (\<lambda>source destination s. (Inr (), s)),
      uuid_load =
        (\<lambda>task_id.
           if task_id = ''00000000-0000-0000-0000-000000000000'' then Some 0 else None),
      uuid_str = (\<lambda>u. ''00000000-0000-0000-0000-000000000000''),
      to_public_status =
        (\<lambda>status. if status = ''ACCEPTED_NEW_NONCE_ASSIGNED'' then ''ACCEPTED'' else status),
      status_name = (\<lambda>status. status)\<rparr>"

definition mock_bid_arguments :: bid_arguments where
  "mock_bid_arguments =
     \<lparr>arg_execution_time = Accepted 600, arg_bid_valid_until = Accepted 1700000600,
      arg_fee = Accepted 5, arg_bid_signature = Accepted ''0xb1d'',
      arg_bid_unknown = []\<rparr>"

definition mock_transfer_arguments :: "int \<Rightarrow> transfer_arguments" where
  "mock_transfer_arguments n =
     \<lparr>arg_source_blockchain_id = Accepted 0,
      arg_destination_blockchain_id = Accepted 1,
      arg_sender_address = Accepted ''0x7De6Ce2Ce98B446CdD2730d2D49B0e1FEe2Ff85C'',
      arg_recipient_address = Accepted ''0x7De6Ce2Ce98B446CdD2730d2D49B0e1FEe2Ff85C'',
      arg_source_token_address = Accepted ''0xcd8fa68c471d7703C074EA5e2C56B852795B33c0'',
      arg_destination_token_address =
        Accepted ''0xcd8fa68c471d7703C074EA5e2C56B852795B33c0'',
      arg_valid_until = Accepted 1700000600,
      arg_amount = Accepted n,
      arg_nonce = Accepted 1337,
      arg_signature = Accepted ''0x5197'',
      arg_bid = Accepted mock_bid_arguments,
      arg_unknown = []\<rparr>"

definition mock_request :: initiate_transfer_request where
  "mock_request =
     \<lparr>source_blockchain = 0, destination_blockchain = 1,
      sender_address = ''0x7De6Ce2Ce98B446CdD2730d2D49B0e1FEe2Ff85C'',
      recipient_address = ''0x7De6Ce2Ce98B446CdD2730d2D49B0e1FEe2Ff85C'',
      source_token_address = ''0xcd8fa68c471d7703C074EA5e2C56B852795B33c0'',
      destination_token_address = ''0xcd8fa68c471d7703C074EA5e2C56B852795B33c0'',
      valid_until = 1700000600, amount = 100, nonce = 1337,
      signature = ''0x5197'',
      bid = \<lparr>bid_source_blockchain = 0, bid_destination_blockchain = 1,
              bid_fee = 5, bid_execution_time = 600,
              bid_valid_until = 1700000600, bid_signature = ''0xb1d''\<rparr>,
      time_received = 1700000000\<rparr>"

text \<open>
  The values of the tests of the blockchain client: \<open>_MOCK_CONFIG\<close>,
  \<open>_TRANSACTION_ID\<close>, \<open>_ON_CHAIN_TRANSFER_ID\<close>, and a client whose utility answers
  as the mock of the test is told to.
\<close>

definition MOCK_CONFIG :: blockchain_config where
  "MOCK_CONFIG =
     \<lparr>provider = [], fallback_providers = [[]], average_block_time = 14,
      confirmations = 12, chain_id = 1,
      vsn_token = ''0xcd8fa68c471d7703C074EA5e2C56B852795B33c0'',
      private_key = ''/tmp/key'', private_key_password = ''some_password''\<rparr>"

definition TRANSACTION_ID :: string where
  "TRANSACTION_ID = ''0x5792e26d11cdf54155de59de5ddcca3f9d084ce89f4b5d4f9e50ec30c726be70''"

definition ON_CHAIN_TRANSFER_ID :: int where
  "ON_CHAIN_TRANSFER_ID = 10512"

definition mock_client ::
  "(blockchain_error + utilities_status_response) \<Rightarrow> nat blockchain_client" where
  "mock_client status =
     \<lparr>client_config = MOCK_CONFIG,
      client_utilities = \<lparr>get_transaction_submission_status = (\<lambda>i. status)\<rparr>,
      read_on_chain_transfer_id = (\<lambda>tx destination. Inr ON_CHAIN_TRANSFER_ID)\<rparr>"

section \<open>Routing\<close>

lemma glob_match_star: "glob_match ''*'' s"
  by (induction s) simp_all

lemma glob_match_literal_prefix:
  "CHR ''*'' \<notin> set p \<Longrightarrow> glob_match (p @ q) (p @ s) = glob_match q s"
  by (induction p) auto

lemma glob_match_transfers:
  "glob_match ''vision.servicenode.business.transfers.*''
     (''vision.servicenode.business.transfers.'' @ task)"
proof -
  have "glob_match (''vision.servicenode.business.transfers.'' @ ''*'')
          (''vision.servicenode.business.transfers.'' @ task)
        = glob_match ''*'' task"
    by (rule glob_match_literal_prefix) simp
  then show ?thesis
    by (simp add: glob_match_star)
qed

lemma is_glob_task_routes:
  "is_glob ''vision.servicenode.business.plugins.execute_bid_plugin'' = False"
  "is_glob ''vision.servicenode.business.transfers.*'' = True"
  "is_glob ''vision.common.blockchains.tasks._transaction_resubmission_task'' = False"
  "is_glob ''vision.servicenode.business.tasks._dependent_transaction_submission_task''
     = False"
  by (simp_all add: is_glob_def)

text \<open>
  C8: the routes keep the three classes of work on three queues. The task
  \<open>execute_bid_plugin\<close> goes to the queue \<open>bids\<close>; every task of the module
  \<open>vision.servicenode.business.transfers\<close>, whatever its name, and the transaction
  resubmission task go to \<open>transfers\<close>; the dependent transaction submission task goes
  to \<open>transactions\<close>; and the three queue names differ from one another.
\<close>

theorem task_routes_segregate_queues:
  "queue_of_task ''vision.servicenode.business.plugins.execute_bid_plugin'' = ''bids''
   \<and> queue_of_task (''vision.servicenode.business.transfers.'' @ task) = ''transfers''
   \<and> queue_of_task ''vision.common.blockchains.tasks._transaction_resubmission_task''
       = ''transfers''
   \<and> queue_of_task
        ''vision.servicenode.business.tasks._dependent_transaction_submission_task''
       = ''transactions''
   \<and> distinct [BIDS_QUEUE_NAME, TRANSFERS_QUEUE_NAME, TRANSACTIONS_QUEUE_NAME]"
proof -
  have a: "queue_of_task ''vision.servicenode.business.plugins.execute_bid_plugin''
             = ''bids''"
    by (simp add: queue_of_task_def route_for_task_def task_routes_def
        is_glob_task_routes BIDS_QUEUE_NAME_def)
  have b: "queue_of_task (''vision.servicenode.business.transfers.'' @ task)
             = ''transfers''"
    using glob_match_transfers [of task]
    by (simp add: queue_of_task_def route_for_task_def task_routes_def
        is_glob_task_routes TRANSFERS_QUEUE_NAME_def)
  have c: "queue_of_task
             ''vision.common.blockchains.tasks._transaction_resubmission_task''
             = ''transfers''"
    by (simp add: queue_of_task_def route_for_task_def task_routes_def
        is_glob_task_routes TRANSFERS_QUEUE_NAME_def)
  have d: "queue_of_task
             ''vision.servicenode.business.tasks._dependent_transaction_submission_task''
             = ''transactions''"
    by (simp add: queue_of_task_def route_for_task_def task_routes_def
        is_glob_task_routes TRANSACTIONS_QUEUE_NAME_def)
  have e: "distinct [BIDS_QUEUE_NAME, TRANSFERS_QUEUE_NAME, TRANSACTIONS_QUEUE_NAME]"
    by (simp add: BIDS_QUEUE_NAME_def TRANSFERS_QUEUE_NAME_def
        TRANSACTIONS_QUEUE_NAME_def)
  from a b c d e show ?thesis by blast
qed

theorem task_routes_segregate_queues_witness:
  "queue_of_task ''vision.servicenode.business.transfers.execute_transfer_task''
     = ''transfers''"
  using task_routes_segregate_queues [of "''execute_transfer_task''"] by simp

section \<open>Start of the worker\<close>

text \<open>
  C7: in the main module, the loading of the module fails only when the broker cannot
  be reached. When it completes, the bids queue is empty if it exists and is still
  missing if it was missing (the \<open>NotFound\<close> is logged as a warning and the plugins are
  initialised all the same), the queues \<open>transfers\<close> and \<open>transactions\<close> hold what they
  held, and the purge comes before the plugins are initialised.
\<close>

theorem startup_purges_bids_queue:
  assumes "is_main_module module_name argv"
  shows "case celery_module_init module_name argv b of
           Inl error \<Rightarrow> \<not> reachable b
         | Inr st \<Rightarrow>
             queues (startup_broker st) BIDS_QUEUE_NAME
               = map_option (\<lambda>pending. []) (queues b BIDS_QUEUE_NAME)
             \<and> queues (startup_broker st) TRANSFERS_QUEUE_NAME
                 = queues b TRANSFERS_QUEUE_NAME
             \<and> queues (startup_broker st) TRANSACTIONS_QUEUE_NAME
                 = queues b TRANSACTIONS_QUEUE_NAME
             \<and> events st =
                 (case queues b BIDS_QUEUE_NAME of
                    None \<Rightarrow>
                      [InitializeApplication, LogWarning (NotFound BIDS_QUEUE_NAME),
                       InitializePlugins]
                  | Some pending \<Rightarrow>
                      [InitializeApplication, QueuePurged BIDS_QUEUE_NAME,
                       InitializePlugins])"
  using assms
  by (auto simp: celery_module_init_def queue_purge_def Let_def BIDS_QUEUE_NAME_def
      TRANSFERS_QUEUE_NAME_def TRANSACTIONS_QUEUE_NAME_def
      split: option.splits if_splits sum.splits)

theorem startup_purges_bids_queue_witness:
  "is_main_module ''vision.servicenode.celery''
     [''/usr/bin/celery'', ''-A'', ''vision.servicenode'', ''worker'']
   \<and> (\<exists>st. celery_module_init ''vision.servicenode.celery''
              [''/usr/bin/celery'', ''-A'', ''vision.servicenode'', ''worker'']
              \<lparr>reachable = True,
               queues = [''bids'' \<mapsto> [1::nat, 2], ''transfers'' \<mapsto> [3]]\<rparr> = Inr st
          \<and> queues (startup_broker st) ''bids'' = Some []
          \<and> queues (startup_broker st) ''transfers'' = Some [3]
          \<and> queues (startup_broker st) ''transactions'' = None
          \<and> events st = [InitializeApplication, QueuePurged ''bids'', InitializePlugins])
   \<and> (\<exists>st. celery_module_init ''vision.servicenode.celery''
              [''/usr/bin/celery'', ''-A'', ''vision.servicenode'', ''worker'']
              \<lparr>reachable = True, queues = [''transfers'' \<mapsto> [3::nat]]\<rparr> = Inr st
          \<and> queues (startup_broker st) ''bids'' = None
          \<and> queues (startup_broker st) ''transfers'' = Some [3]
          \<and> events st = [InitializeApplication, LogWarning (NotFound ''bids''),
                           InitializePlugins])"
proof -
  have h: "is_main_module ''vision.servicenode.celery''
     [''/usr/bin/celery'', ''-A'', ''vision.servicenode'', ''worker'']"
    by (simp add: is_main_module_def potential_celery_markers_def)
  show ?thesis
    using h
      startup_purges_bids_queue [OF h,
        of "\<lparr>reachable = True,
             queues = [''bids'' \<mapsto> [1::nat, 2], ''transfers'' \<mapsto> [3]]\<rparr>"]
      startup_purges_bids_queue [OF h,
        of "\<lparr>reachable = True, queues = [''transfers'' \<mapsto> [3::nat]]\<rparr>"]
    by (simp add: celery_module_init_def queue_purge_def BIDS_QUEUE_NAME_def
        TRANSFERS_QUEUE_NAME_def TRANSACTIONS_QUEUE_NAME_def)
qed

section \<open>The blockchain client\<close>

lemma error_class_raise_while_handling:
  "error_class (raise_while_handling raised handled) = error_class raised"
  by (cases raised) simp

lemma error_context_raise_while_handling:
  "error_context (raise_while_handling raised handled) = Some handled"
  by (cases raised) simp

text \<open>
  C1: when the chain-access utility fails while the status is polled,
  \<open>get_transfer_submission_status\<close> fails with an error of the class
  \<open>UnresolvableTransferSubmissionError\<close>. The error is not the utility's own (it is not
  of the class \<open>BlockchainUtilitiesError\<close> and it is another value): the utility's error
  is kept as its context only.
\<close>

theorem status_error_is_unresolvable:
  assumes "get_transaction_submission_status (client_utilities client)
             internal_transaction_id = Inl error"
  shows "\<exists>raised. get_transfer_submission_status client internal_transaction_id
                     destination = Inl raised
                 \<and> error_class raised = UnresolvableTransferSubmissionError
                 \<and> error_class raised \<noteq> BlockchainUtilitiesError
                 \<and> raised \<noteq> error
                 \<and> error_context raised = Some error"
proof -
  let ?raised = "raise_while_handling create_unresolvable_transfer_submission_error error"
  have r: "get_transfer_submission_status client internal_transaction_id destination
             = Inl ?raised"
    using assms by (simp add: get_transfer_submission_status_def)
  have c: "error_class ?raised = UnresolvableTransferSubmissionError"
    by (simp add: error_class_raise_while_handling
        create_unresolvable_transfer_submission_error_def)
  have x: "error_context ?raised = Some error"
    by (rule error_context_raise_while_handling)
  have "size ?raised \<noteq> size error"
    by (cases error) (simp add: create_unresolvable_transfer_submission_error_def)
  then have n: "?raised \<noteq> error" by auto
  from r c x n show ?thesis by simp
qed

theorem status_error_is_unresolvable_witness:
  "get_transaction_submission_status
       (client_utilities
          (mock_client (Inl (BlockchainError BlockchainUtilitiesError None)))) 7
     = Inl (BlockchainError BlockchainUtilitiesError None)
   \<and> get_transfer_submission_status
         (mock_client (Inl (BlockchainError BlockchainUtilitiesError None))) 7 1
       = Inl (BlockchainError UnresolvableTransferSubmissionError
                (Some (BlockchainError BlockchainUtilitiesError None)))"
proof -
  have h: "get_transaction_submission_status
       (client_utilities
          (mock_client (Inl (BlockchainError BlockchainUtilitiesError None)))) 7
     = Inl (BlockchainError BlockchainUtilitiesError None)"
    by (simp add: mock_client_def)
  show ?thesis
    using h status_error_is_unresolvable [OF h, of 1]
    by (simp add: get_transfer_submission_status_def
        create_unresolvable_transfer_submission_error_def)
qed

lemma completed_status_cases:
  assumes "get_transfer_submission_status client internal_transaction_id destination
             = Inr response"
      and "transaction_submission_completed response"
  obtains tx transfer_id where
      "get_transaction_submission_status (client_utilities client)
           internal_transaction_id
         = Inr \<lparr>utilities_transaction_submission_completed = True,
                utilities_transaction_status = Some CONFIRMED,
                utilities_transaction_id = Some tx\<rparr>"
      "read_on_chain_transfer_id client tx destination = Inr transfer_id"
      "response = \<lparr>transaction_submission_completed = True,
                     transaction_status = Some CONFIRMED, transaction_id = Some tx,
                     on_chain_transfer_id = Some transfer_id\<rparr>"
    | tx where
      "get_transaction_submission_status (client_utilities client)
           internal_transaction_id
         = Inr \<lparr>utilities_transaction_submission_completed = True,
                utilities_transaction_status = Some REVERTED,
                utilities_transaction_id = Some tx\<rparr>"
      "response = \<lparr>transaction_submission_completed = True,
                     transaction_status = Some REVERTED, transaction_id = Some tx,
                     on_chain_transfer_id = None\<rparr>"
  using assms
  by (auto simp: get_transfer_submission_status_def
      split: if_split_asm option.split_asm transaction_status.split_asm sum.split_asm)

text \<open>
  C2: a terminal report of the utility is answered with a completed response. A
  \<open>REVERTED\<close> report gives the completed response with the status \<open>REVERTED\<close>, the
  reported transaction ID and no on-chain transfer ID; a \<open>CONFIRMED\<close> report whose
  on-chain transfer ID \<open>_read_on_chain_transfer_id\<close> returns gives the completed
  response with the status \<open>CONFIRMED\<close>, the reported transaction ID and that on-chain
  transfer ID. Conversely, every completed response of
  \<open>get_transfer_submission_status\<close> carries the transaction status and the transaction
  ID that the utility reported; when the status is \<open>CONFIRMED\<close> its on-chain transfer ID
  is the one \<open>_read_on_chain_transfer_id\<close> returned for that transaction and the
  destination blockchain, and when the status is \<open>REVERTED\<close> it has no on-chain transfer
  ID.
\<close>

theorem completed_status_response:
  "(\<forall>tx.
      get_transaction_submission_status (client_utilities client)
          internal_transaction_id
        = Inr \<lparr>utilities_transaction_submission_completed = True,
               utilities_transaction_status = Some REVERTED,
               utilities_transaction_id = Some tx\<rparr> \<longrightarrow>
      get_transfer_submission_status client internal_transaction_id destination
        = Inr \<lparr>transaction_submission_completed = True,
               transaction_status = Some REVERTED, transaction_id = Some tx,
               on_chain_transfer_id = None\<rparr>)
   \<and> (\<forall>tx transfer_id.
        get_transaction_submission_status (client_utilities client)
            internal_transaction_id
          = Inr \<lparr>utilities_transaction_submission_completed = True,
                 utilities_transaction_status = Some CONFIRMED,
                 utilities_transaction_id = Some tx\<rparr> \<longrightarrow>
        read_on_chain_transfer_id client tx destination = Inr transfer_id \<longrightarrow>
        get_transfer_submission_status client internal_transaction_id destination
          = Inr \<lparr>transaction_submission_completed = True,
                 transaction_status = Some CONFIRMED, transaction_id = Some tx,
                 on_chain_transfer_id = Some transfer_id\<rparr>)
   \<and> (\<forall>response.
        get_transfer_submission_status client internal_transaction_id destination
          = Inr response \<longrightarrow>
        transaction_submission_completed response \<longrightarrow>
        (\<exists>status tx.
           get_transaction_submission_status (client_utilities client)
               internal_transaction_id
             = Inr \<lparr>utilities_transaction_submission_completed = True,
                    utilities_transaction_status = Some status,
                    utilities_transaction_id = Some tx\<rparr>
           \<and> transaction_status response = Some status
           \<and> transaction_id response = Some tx
           \<and> (status = CONFIRMED \<longrightarrow>
                (\<exists>transfer_id.
                   read_on_chain_transfer_id client tx destination = Inr transfer_id
                   \<and> on_chain_transfer_id response = Some transfer_id))
           \<and> (status = REVERTED \<longrightarrow> on_chain_transfer_id response = None)))"
proof -
  have reverted: "\<forall>tx.
      get_transaction_submission_status (client_utilities client)
          internal_transaction_id
        = Inr \<lparr>utilities_transaction_submission_completed = True,
               utilities_transaction_status = Some REVERTED,
               utilities_transaction_id = Some tx\<rparr> \<longrightarrow>
      get_transfer_submission_status client internal_transaction_id destination
        = Inr \<lparr>transaction_submission_completed = True,
               transaction_status = Some REVERTED, transaction_id = Some tx,
               on_chain_transfer_id = None\<rparr>"
    by (simp add: get_transfer_submission_status_def)
  have confirmed: "\<forall>tx transfer_id.
        get_transaction_submission_status (client_utilities client)
            internal_transaction_id
          = Inr \<lparr>utilities_transaction_submission_completed = True,
                 utilities_transaction_status = Some CONFIRMED,
                 utilities_transaction_id = Some tx\<rparr> \<longrightarrow>
        read_on_chain_transfer_id client tx destination = Inr transfer_id \<longrightarrow>
        get_transfer_submission_status client internal_transaction_id destination
          = Inr \<lparr>transaction_submission_completed = True,
                 transaction_status = Some CONFIRMED, transaction_id = Some tx,
                 on_chain_transfer_id = Some transfer_id\<rparr>"
    by (simp add: get_transfer_submission_status_def)
  have completed: "\<exists>status tx.
           get_transaction_submission_status (client_utilities client)
               internal_transaction_id
             = Inr \<lparr>utilities_transaction_submission_completed = True,
                    utilities_transaction_status = Some status,
                    utilities_transaction_id = Some tx\<rparr>
           \<and> transaction_status response = Some status
           \<and> transaction_id response = Some tx
           \<and> (status = CONFIRMED \<longrightarrow>
                (\<exists>transfer_id.
                   read_on_chain_transfer_id client tx destination = Inr transfer_id
                   \<and> on_chain_transfer_id response = Some transfer_id))
           \<and> (status = REVERTED \<longrightarrow> on_chain_transfer_id response = None)"
    if "get_transfer_submission_status client internal_transaction_id destination
          = Inr response"
      and "transaction_submission_completed response"
    for response
    using that
  proof (cases rule: completed_status_cases)
    case (1 tx transfer_id)
    then show ?thesis by simp
  next
    case (2 tx)
    then show ?thesis by simp
  qed
  from reverted confirmed completed show ?thesis
    by blast
qed

theorem completed_status_response_witness:
  "get_transaction_submission_status
       (client_utilities
          (mock_client (Inr \<lparr>utilities_transaction_submission_completed = True,
                              utilities_transaction_status = Some REVERTED,
                              utilities_transaction_id = Some TRANSACTION_ID\<rparr>))) 7
     = Inr \<lparr>utilities_transaction_submission_completed = True,
            utilities_transaction_status = Some REVERTED,
            utilities_transaction_id = Some TRANSACTION_ID\<rparr>
   \<and> get_transfer_submission_status
         (mock_client (Inr \<lparr>utilities_transaction_submission_completed = True,
                             utilities_transaction_status = Some REVERTED,
                             utilities_transaction_id = Some TRANSACTION_ID\<rparr>)) 7 1
       = Inr \<lparr>transaction_submission_completed = True,
              transaction_status = Some REVERTED,
              transaction_id = Some TRANSACTION_ID,
              on_chain_transfer_id = None\<rparr>
   \<and> get_transaction_submission_status
         (client_utilities
            (mock_client (Inr \<lparr>utilities_transaction_submission_completed = True,
                                utilities_transaction_status = Some CONFIRMED,
                                utilities_transaction_id = Some TRANSACTION_ID\<rparr>))) 7
       = Inr \<lparr>utilities_transaction_submission_completed = True,
              utilities_transaction_status = Some CONFIRMED,
              utilities_transaction_id = Some TRANSACTION_ID\<rparr>
   \<and> read_on_chain_transfer_id
         (mock_client (Inr \<lparr>utilities_transaction_submission_completed = True,
                             utilities_transaction_status = Some CONFIRMED,
                             utilities_transaction_id = Some TRANSACTION_ID\<rparr>))
         TRANSACTION_ID 1 = Inr 10512
   \<and> get_transfer_submission_status
         (mock_client (Inr \<lparr>utilities_transaction_submission_completed = True,
                             utilities_transaction_status = Some CONFIRMED,
                             utilities_transaction_id = Some TRANSACTION_ID\<rparr>)) 7 1
       = Inr \<lparr>transaction_submission_completed = True,
              transaction_status = Some CONFIRMED,
              transaction_id = Some TRANSACTION_ID,
              on_chain_transfer_id = Some 10512\<rparr>
   \<and> transaction_submission_completed
         \<lparr>transaction_submission_completed = True,
          transaction_status = Some CONFIRMED,
          transaction_id = Some TRANSACTION_ID,
          on_chain_transfer_id = Some 10512\<rparr>"
proof -
  let ?reverted = "mock_client (Inr \<lparr>utilities_transaction_submission_completed = True,
                             utilities_transaction_status = Some REVERTED,
                             utilities_transaction_id = Some TRANSACTION_ID\<rparr>)"
  let ?confirmed = "mock_client (Inr \<lparr>utilities_transaction_submission_completed = True,
                             utilities_transaction_status = Some CONFIRMED,
                             utilities_transaction_id = Some TRANSACTION_ID\<rparr>)"
  have p1: "get_transaction_submission_status (client_utilities ?reverted) 7
     = Inr \<lparr>utilities_transaction_submission_completed = True,
            utilities_transaction_status = Some REVERTED,
            utilities_transaction_id = Some TRANSACTION_ID\<rparr>"
    by (simp add: mock_client_def)
  have p2: "get_transaction_submission_status (client_utilities ?confirmed) 7
     = Inr \<lparr>utilities_transaction_submission_completed = True,
            utilities_transaction_status = Some CONFIRMED,
            utilities_transaction_id = Some TRANSACTION_ID\<rparr>"
    by (simp add: mock_client_def)
  have p3: "read_on_chain_transfer_id ?confirmed TRANSACTION_ID 1 = Inr 10512"
    by (simp add: mock_client_def ON_CHAIN_TRANSFER_ID_def)
  have r1: "get_transfer_submission_status ?reverted 7 1
       = Inr \<lparr>transaction_submission_completed = True,
              transaction_status = Some REVERTED,
              transaction_id = Some TRANSACTION_ID,
              on_chain_transfer_id = None\<rparr>"
    using completed_status_response [of ?reverted 7 1] p1 by blast
  have r2: "get_transfer_submission_status ?confirmed 7 1
       = Inr \<lparr>transaction_submission_completed = True,
              transaction_status = Some CONFIRMED,
              transaction_id = Some TRANSACTION_ID,
              on_chain_transfer_id = Some 10512\<rparr>"
    using completed_status_response [of ?confirmed 7 1] p2 p3 by blast
  from p1 p2 p3 r1 r2 show ?thesis
    by simp
qed

text \<open>
  C3: when the utility reports a status that is not completed,
  \<open>get_transfer_submission_status\<close> returns (it raises nothing) the response with
  \<open>transaction_submission_completed = False\<close> and with no transaction status, no
  transaction ID and no on-chain transfer ID.
\<close>

theorem pending_status_response:
  assumes "get_transaction_submission_status (client_utilities client)
             internal_transaction_id = Inr status_response"
      and "\<not> utilities_transaction_submission_completed status_response"
  shows "get_transfer_submission_status client internal_transaction_id destination
           = Inr \<lparr>transaction_submission_completed = False, transaction_status = None,
                  transaction_id = None, on_chain_transfer_id = None\<rparr>"
  using assms by (simp add: get_transfer_submission_status_def)

theorem pending_status_response_witness:
  "get_transaction_submission_status
       (client_utilities
          (mock_client (Inr \<lparr>utilities_transaction_submission_completed = False,
                              utilities_transaction_status = None,
                              utilities_transaction_id = None\<rparr>))) 7
     = Inr \<lparr>utilities_transaction_submission_completed = False,
            utilities_transaction_status = None, utilities_transaction_id = None\<rparr>
   \<and> \<not> utilities_transaction_submission_completed
         \<lparr>utilities_transaction_submission_completed = False,
          utilities_transaction_status = None, utilities_transaction_id = None\<rparr>
   \<and> get_transfer_submission_status
         (mock_client (Inr \<lparr>utilities_transaction_submission_completed = False,
                             utilities_transaction_status = None,
                             utilities_transaction_id = None\<rparr>)) 7 1
       = Inr \<lparr>transaction_submission_completed = False, transaction_status = None,
              transaction_id = None, on_chain_transfer_id = None\<rparr>"
proof -
  have h1: "get_transaction_submission_status
       (client_utilities
          (mock_client (Inr \<lparr>utilities_transaction_submission_completed = False,
                              utilities_transaction_status = None,
                              utilities_transaction_id = None\<rparr>))) 7
     = Inr \<lparr>utilities_transaction_submission_completed = False,
            utilities_transaction_status = None, utilities_transaction_id = None\<rparr>"
    by (simp add: mock_client_def)
  have h2: "\<not> utilities_transaction_submission_completed
         \<lparr>utilities_transaction_submission_completed = False,
          utilities_transaction_status = None, utilities_transaction_id = None\<rparr>"
    by simp
  show ?thesis
    using h1 h2 pending_status_response [OF h1 h2, of 1] by simp
qed

text \<open>
  C4: when \<open>initialize_blockchain_utilities\<close> fails, the construction of the client
  fails with an error of the class \<open>BlockchainClientError\<close> whose context is the
  utility's failure.
\<close>

theorem init_error_is_wrapped:
  assumes "initialize_blockchain_utilities config = Inl error"
  shows "\<exists>raised. BlockchainClient_init initialize_blockchain_utilities read config
                     = Inl raised
                 \<and> error_class raised = BlockchainClientError
                 \<and> error_context raised = Some error"
  using assms
  by (simp add: BlockchainClient_init_def error_class_raise_while_handling
      error_context_raise_while_handling create_error_def)


theorem init_error_is_wrapped_witness:
  "(\<lambda>config. Inl (BlockchainError BlockchainUtilitiesError None)
        :: blockchain_error + nat blockchain_utilities) MOCK_CONFIG
     = Inl (BlockchainError BlockchainUtilitiesError None)
   \<and> BlockchainClient_init
         (\<lambda>config. Inl (BlockchainError BlockchainUtilitiesError None)
            :: blockchain_error + nat blockchain_utilities)
         (\<lambda>tx destination. Inr ON_CHAIN_TRANSFER_ID) MOCK_CONFIG
       = Inl (BlockchainError BlockchainClientError
                (Some (BlockchainError BlockchainUtilitiesError None)))"
proof -
  have h: "(\<lambda>config. Inl (BlockchainError BlockchainUtilitiesError None)
        :: blockchain_error + nat blockchain_utilities) MOCK_CONFIG
     = Inl (BlockchainError BlockchainUtilitiesError None)"
    by simp
  show ?thesis
    using init_error_is_wrapped [OF h, of "\<lambda>tx destination. Inr ON_CHAIN_TRANSFER_ID"]
    by (simp add: BlockchainClient_init_def create_error_def)
qed

section \<open>The request boundary\<close>

lemma TransferSchema_data_amount:
  assumes "TransferSchema_data env args time = Some data"
      and "arg_amount args = Accepted a"
  shows "data_amount data = a"
  using assms
  by (auto simp: TransferSchema_data_def split: Option.bind_splits)

lemma validate_schema_amount:
  assumes "data_amount data \<le> 0"
  shows "validate_schema env data \<noteq> None"
  using assms
  by (simp add: validate_schema_def check_amount_def Let_def split: option.splits)

lemma TransferSchema_load_amount:
  assumes "arg_amount args = Accepted a" and "a \<le> 0"
  shows "\<exists>messages. TransferSchema_load env args time = Inl messages"
proof (cases "TransferSchema_data env args time")
  case None
  then show ?thesis
    by (simp add: TransferSchema_load_def Let_def split: list.splits)
next
  case (Some data)
  with assms have "data_amount data \<le> 0"
    using TransferSchema_data_amount by blast
  then have "validate_schema env data \<noteq> None"
    by (rule validate_schema_amount)
  with Some show ?thesis
    by (auto simp: TransferSchema_load_def Let_def split: list.splits)
qed

lemma validate_schema_initiate_transfer:
  "validate_schema (env\<lparr>initiate_transfer := f\<rparr>) data = validate_schema env data"
  by (simp add: validate_schema_def check_valid_sender_address_def
      check_valid_recipient_address_def check_valid_source_token_address_def
      check_valid_destination_token_address_def Let_def
      cong: option.case_cong if_cong)

lemma source_blockchain_id_errors_initiate_transfer:
  "source_blockchain_id_errors (env\<lparr>initiate_transfer := f\<rparr>) args
     = source_blockchain_id_errors env args"
  by (simp add: source_blockchain_id_errors_def validate_source_blockchain_id_def
      Let_def cong: field_input.case_cong option.case_cong if_cong)

lemma TransferSchema_load_initiate_transfer:
  "TransferSchema_load (env\<lparr>initiate_transfer := f\<rparr>) args time
     = TransferSchema_load env args time"
  by (simp add: TransferSchema_load_def TransferSchema_field_errors_def
      TransferSchema_data_def source_blockchain_id_errors_initiate_transfer
      validate_schema_initiate_transfer
      cong: option.case_cong list.case_cong prod.case_cong)

text \<open>
  C5: a transfer request whose amount is not positive is answered with the validation
  failure (status 406 with the messages of the \<open>ValidationError\<close> of the load), the
  state of the service node is what it was, so no record is persisted and no work
  enqueued, and the answer is the same whatever \<open>initiate_transfer\<close> is: it is not
  invoked.
\<close>

theorem Transfer_post_rejects_amount_not_positive:
  assumes "arg_amount arguments = Accepted a" and "a \<le> 0"
  shows "\<exists>messages.
           TransferSchema_load env arguments time = Inl messages
           \<and> Transfer_post env (JsonObject arguments) time s
               = (HttpResponse 406 (Messages messages), s)
           \<and> Transfer_post (env\<lparr>initiate_transfer := f\<rparr>) (JsonObject arguments) time s
               = Transfer_post env (JsonObject arguments) time s"
proof -
  from assms obtain messages where
    m: "TransferSchema_load env arguments time = Inl messages"
    using TransferSchema_load_amount by blast
  then have "Transfer_post env (JsonObject arguments) time s
               = (HttpResponse 406 (Messages messages), s)"
    by (simp add: Transfer_post_def not_acceptable_def)
  moreover from m have
    "Transfer_post (env\<lparr>initiate_transfer := f\<rparr>) (JsonObject arguments) time s
       = Transfer_post env (JsonObject arguments) time s"
    by (simp add: Transfer_post_def TransferSchema_load_initiate_transfer)
  ultimately show ?thesis
    using m by blast
qed

lemma mock_TransferSchema_load_amount_0:
  "TransferSchema_load mock_environment (mock_transfer_arguments 0) 1700000000
     = Inl (Fields [(''amount'', Errors [''amount must be greater than 0''])])"
  by (simp add: TransferSchema_load_def TransferSchema_field_errors_def
      TransferSchema_data_def source_blockchain_id_errors_def
      validate_source_blockchain_id_def validate_schema_def
      check_valid_sender_address_def check_valid_recipient_address_def
      check_valid_source_token_address_def check_valid_destination_token_address_def
      check_amount_def mock_environment_def mock_transfer_arguments_def
      mock_bid_arguments_def field_errors_def unknown_errors_def validated_def
      OneOf_def nested_bid_def BidSchema_errors_def BidSchema_data_def)

theorem Transfer_post_rejects_amount_not_positive_witness:
  "arg_amount (mock_transfer_arguments 0) = Accepted 0 \<and> (0::int) \<le> 0
   \<and> Transfer_post mock_environment (JsonObject (mock_transfer_arguments 0))
         1700000000 []
       = (HttpResponse 406
            (Messages (Fields [(''amount'', Errors [''amount must be greater than 0''])])),
          [])
   \<and> Transfer_post
         (mock_environment
            \<lparr>initiate_transfer := (\<lambda>request s. (Inr 0, request # s))\<rparr>)
         (JsonObject (mock_transfer_arguments 0)) 1700000000 []
       = (HttpResponse 406
            (Messages (Fields [(''amount'', Errors [''amount must be greater than 0''])])),
          [])"
proof -
  have h1: "arg_amount (mock_transfer_arguments 0) = Accepted 0"
    by (simp add: mock_transfer_arguments_def)
  have h2: "(0::int) \<le> 0"
    by simp
  show ?thesis
    using h1 h2
      Transfer_post_rejects_amount_not_positive [OF h1 h2, of mock_environment
        1700000000 "[]" "\<lambda>request s. (Inr 0, request # s)"]
    by (simp add: mock_TransferSchema_load_amount_0)
qed

lemma TransferStatus_get_except_not_ok:
  "status_code (TransferStatus_get_except task_id error) \<noteq> 200"
  by (cases error) (simp_all add: resource_not_found_def internal_server_error_def)

lemma TransferStatusSchema_load_find_transfer:
  "TransferStatusSchema_load (env\<lparr>find_transfer := f\<rparr>) task_id
     = TransferStatusSchema_load env task_id"
  by (simp add: TransferStatusSchema_load_def)

text \<open>
  C9: a task ID that the UUID field does not accept is answered 404 with the message
  that the task ID is not a UUID, the state is what it was, and the answer is the same
  whatever \<open>find_transfer\<close> is: the lookup is not invoked. For a task ID that the field
  accepts, the answer depends on the lookup only through what it returns for that UUID.
\<close>

theorem TransferStatus_get_rejects_non_uuid:
  assumes "uuid_load env task_id = None"
  shows "TransferStatus_get env task_id s
           = (HttpResponse 404 (Message (''task ID '' @ task_id @ '' is not a UUID'')), s)
       \<and> TransferStatus_get (env\<lparr>find_transfer := f\<rparr>) task_id s
           = TransferStatus_get env task_id s
       \<and> (\<forall>t u g. uuid_load env t = Some u \<longrightarrow> f u s = g u s \<longrightarrow>
             TransferStatus_get (env\<lparr>find_transfer := f\<rparr>) t s
               = TransferStatus_get (env\<lparr>find_transfer := g\<rparr>) t s)"
  using assms
  by (simp add: TransferStatus_get_def TransferStatusSchema_load_def
      resource_not_found_def split: prod.splits sum.splits)

theorem TransferStatus_get_rejects_non_uuid_witness:
  "uuid_load mock_environment ''not-a-uuid'' = None
   \<and> TransferStatus_get mock_environment ''not-a-uuid'' []
       = (HttpResponse 404 (Message ''task ID not-a-uuid is not a UUID''), [])
   \<and> TransferStatus_get
         (mock_environment
            \<lparr>find_transfer := (\<lambda>u s. (Inl (OtherException ''called''), s))\<rparr>)
         ''not-a-uuid'' []
       = (HttpResponse 404 (Message ''task ID not-a-uuid is not a UUID''), [])"
proof -
  have h: "uuid_load mock_environment ''not-a-uuid'' = None"
    by (simp add: mock_environment_def)
  show ?thesis
    using h
      TransferStatus_get_rejects_non_uuid [OF h, of "[]"
        "\<lambda>u s. (Inl (OtherException ''called''), s)"]
    by simp
qed

lemma mock_TransferSchema_load_amount_100:
  "TransferSchema_load mock_environment (mock_transfer_arguments 100) 1700000000
     = Inr mock_request"
  by (simp add: TransferSchema_load_def TransferSchema_field_errors_def
      TransferSchema_data_def source_blockchain_id_errors_def
      validate_source_blockchain_id_def validate_schema_def
      check_valid_sender_address_def check_valid_recipient_address_def
      check_valid_source_token_address_def check_valid_destination_token_address_def
      check_amount_def mock_environment_def mock_transfer_arguments_def
      mock_bid_arguments_def field_errors_def unknown_errors_def validated_def
      OneOf_def nested_bid_def BidSchema_errors_def BidSchema_data_def
      make_initiate_transfer_request_def mock_request_def)

lemma lower_ACCEPTED: "lower ''ACCEPTED'' = ''accepted''"
  by code_simp

text \<open>
  C10: a successful answer of the status endpoint (status 200) is made from the record
  that \<open>find_transfer\<close> returned for the UUID of the task ID. Its \<open>transaction_id\<close> is
  the record's transaction ID when the record has one and the empty string when it has
  none (the field is a string, never absent), and its \<open>status\<close> is the name, in lower
  case, of the public status of the record's status.
\<close>

theorem TransferStatus_get_ok_response:
  assumes "TransferStatus_get env task_id s = (HttpResponse 200 response_body, s')"
  shows "\<exists>task_id_uuid found response.
           uuid_load env task_id = Some task_id_uuid
           \<and> find_transfer env task_id_uuid s = (Inr found, s')
           \<and> response_body = TransferStatusResponse response
           \<and> response_transaction_id response =
               (case found_transaction_id found of
                  None \<Rightarrow> []
                | Some known \<Rightarrow> known)
           \<and> response_status response =
               lower (status_name env (to_public_status env (found_status found)))"
proof (cases "uuid_load env task_id")
  case None
  with assms show ?thesis
    by (simp add: TransferStatus_get_def TransferStatusSchema_load_def
        resource_not_found_def)
next
  case (Some task_id_uuid)
  obtain result s'' where f: "find_transfer env task_id_uuid s = (result, s'')"
    by (cases "find_transfer env task_id_uuid s")
  show ?thesis
  proof (cases result)
    case (Inl error)
    with assms Some f have
      "HttpResponse 200 response_body = TransferStatus_get_except task_id error"
      by (simp add: TransferStatus_get_def TransferStatusSchema_load_def)
    then have False
      using TransferStatus_get_except_not_ok [of task_id error]
      by (metis http_response.sel(1))
    then show ?thesis ..
  next
    case (Inr found)
    with assms Some f show ?thesis
      by (auto simp: TransferStatus_get_def TransferStatusSchema_load_def
          ok_response_def)
  qed
qed

theorem TransferStatus_get_ok_response_witness:
  "TransferStatus_get mock_environment ''00000000-0000-0000-0000-000000000000''
       [mock_request]
     = (HttpResponse 200
          (TransferStatusResponse
             \<lparr>response_task_id = ''00000000-0000-0000-0000-000000000000'',
              response_source_blockchain_id = 0,
              response_destination_blockchain_id = 1,
              response_sender_address = ''0x7De6Ce2Ce98B446CdD2730d2D49B0e1FEe2Ff85C'',
              response_recipient_address =
                ''0x7De6Ce2Ce98B446CdD2730d2D49B0e1FEe2Ff85C'',
              response_source_token_address =
                ''0xcd8fa68c471d7703C074EA5e2C56B852795B33c0'',
              response_destination_token_address =
                ''0xcd8fa68c471d7703C074EA5e2C56B852795B33c0'',
              response_amount = 100,
              response_fee = 5,
              response_status = ''accepted'',
              response_transfer_id = None,
              response_transaction_id = []\<rparr>),
        [mock_request])
   \<and> (case body (fst (TransferStatus_get
           (mock_environment
              \<lparr>find_transfer :=
                 (\<lambda>u s. (Inr ((mock_find_transfer_response mock_request)
                                  \<lparr>found_status := ''ACCEPTED_NEW_NONCE_ASSIGNED'',
                                   found_transaction_id := Some TRANSACTION_ID\<rparr>),
                           s))\<rparr>)
           ''00000000-0000-0000-0000-000000000000'' [])) of
          TransferStatusResponse response \<Rightarrow>
            response_transaction_id response = TRANSACTION_ID
            \<and> response_status response = ''accepted''
        | _ \<Rightarrow> False)"
proof -
  have h: "TransferStatus_get mock_environment ''00000000-0000-0000-0000-000000000000''
       [mock_request]
     = (HttpResponse 200
          (TransferStatusResponse
             \<lparr>response_task_id = ''00000000-0000-0000-0000-000000000000'',
              response_source_blockchain_id = 0,
              response_destination_blockchain_id = 1,
              response_sender_address = ''0x7De6Ce2Ce98B446CdD2730d2D49B0e1FEe2Ff85C'',
              response_recipient_address =
                ''0x7De6Ce2Ce98B446CdD2730d2D49B0e1FEe2Ff85C'',
              response_source_token_address =
                ''0xcd8fa68c471d7703C074EA5e2C56B852795B33c0'',
              response_destination_token_address =
                ''0xcd8fa68c471d7703C074EA5e2C56B852795B33c0'',
              response_amount = 100,
              response_fee = 5,
              response_status = ''accepted'',
              response_transfer_id = None,
              response_transaction_id = []\<rparr>),
        [mock_request])"
    by (simp add: TransferStatus_get_def TransferStatusSchema_load_def
        mock_environment_def mock_find_transfer_response_def mock_request_def
        ok_response_def lower_ACCEPTED)
  show ?thesis
    using h TransferStatus_get_ok_response [OF h]
    by (simp add: TransferStatus_get_def TransferStatusSchema_load_def
        mock_environment_def mock_find_transfer_response_def mock_request_def
        ok_response_def lower_ACCEPTED)
qed

lemma Transfer_post_except_code:
  "status_code (Transfer_post_except request error) =
     (case error of
        ValidationError messages \<Rightarrow> 406
      | SenderNonceNotUniqueError message \<Rightarrow> 409
      | TransferInteractorBidNotAcceptedError message \<Rightarrow> 406
      | TransferInteractorResourceNotFoundError message \<Rightarrow> 500
      | OtherException message \<Rightarrow> 500)"
  by (cases error)
     (simp_all add: not_acceptable_def conflict_def internal_server_error_def)

lemma TransferStatus_get_except_code:
  "status_code (TransferStatus_get_except task_id error) =
     (case error of
        ValidationError messages \<Rightarrow> 404
      | SenderNonceNotUniqueError message \<Rightarrow> 500
      | TransferInteractorBidNotAcceptedError message \<Rightarrow> 500
      | TransferInteractorResourceNotFoundError message \<Rightarrow> 404
      | OtherException message \<Rightarrow> 500)"
  by (cases error) (simp_all add: resource_not_found_def internal_server_error_def)

lemma Bids_get_except_code:
  "status_code (Bids_get_except error) =
     (case error of
        ValidationError messages \<Rightarrow> 400
      | SenderNonceNotUniqueError message \<Rightarrow> 500
      | TransferInteractorBidNotAcceptedError message \<Rightarrow> 500
      | TransferInteractorResourceNotFoundError message \<Rightarrow> 500
      | OtherException message \<Rightarrow> 500)"
  by (cases error) (simp_all add: bad_request_def internal_server_error_def)

text \<open>
  C6: the status of the answer for each error at the request boundary. On the transfer
  endpoint a validation failure of the request is answered 406, and of the exceptions
  of \<open>initiate_transfer\<close> a \<open>SenderNonceNotUniqueError\<close> is answered 409, a
  \<open>TransferInteractorBidNotAcceptedError\<close> and a \<open>ValidationError\<close> 406, and any other
  one 500, as is a body that cannot be read as a JSON object. On the status endpoint
  a task ID that the interactor does not know is answered 404, as is one that is not a
  UUID, and any other exception of \<open>find_transfer\<close> 500. On the bids endpoint a
  validation failure of the query is answered 400 and any other exception 500.
\<close>

theorem request_boundary_status_codes:
  "(\<forall>messages. TransferSchema_load env arguments time = Inl messages \<longrightarrow>
       status_code (fst (Transfer_post env (JsonObject arguments) time s)) = 406)
   \<and> (\<forall>request error s'.
         TransferSchema_load env arguments time = Inr request \<longrightarrow>
         initiate_transfer env request s = (Inl error, s') \<longrightarrow>
         status_code (fst (Transfer_post env (JsonObject arguments) time s)) =
           (case error of
              ValidationError messages \<Rightarrow> 406
            | SenderNonceNotUniqueError message \<Rightarrow> 409
            | TransferInteractorBidNotAcceptedError message \<Rightarrow> 406
            | TransferInteractorResourceNotFoundError message \<Rightarrow> 500
            | OtherException message \<Rightarrow> 500))
   \<and> status_code (fst (Transfer_post env JsonUnreadable time s)) = 500
   \<and> status_code (fst (Transfer_post env JsonNotAnObject time s)) = 500
   \<and> (uuid_load env task_id = None \<longrightarrow>
         status_code (fst (TransferStatus_get env task_id s)) = 404)
   \<and> (\<forall>task_id_uuid error s'.
         uuid_load env task_id = Some task_id_uuid \<longrightarrow>
         find_transfer env task_id_uuid s = (Inl error, s') \<longrightarrow>
         status_code (fst (TransferStatus_get env task_id s)) =
           (case error of
              ValidationError messages \<Rightarrow> 404
            | SenderNonceNotUniqueError message \<Rightarrow> 500
            | TransferInteractorBidNotAcceptedError message \<Rightarrow> 500
            | TransferInteractorResourceNotFoundError message \<Rightarrow> 404
            | OtherException message \<Rightarrow> 500))
   \<and> (\<forall>messages. BidsSchema_load env query_arguments = Inl messages \<longrightarrow>
         status_code (fst (Bids_get env query_arguments s)) = 400)
   \<and> (\<forall>source destination error s'.
         BidsSchema_load env query_arguments = Inr (source, destination) \<longrightarrow>
         get_current_bids env source destination s = (Inl error, s') \<longrightarrow>
         status_code (fst (Bids_get env query_arguments s)) =
           (case error of
              ValidationError messages \<Rightarrow> 400
            | SenderNonceNotUniqueError message \<Rightarrow> 500
            | TransferInteractorBidNotAcceptedError message \<Rightarrow> 500
            | TransferInteractorResourceNotFoundError message \<Rightarrow> 500
            | OtherException message \<Rightarrow> 500))"
proof -
  have a: "\<forall>messages. TransferSchema_load env arguments time = Inl messages \<longrightarrow>
       status_code (fst (Transfer_post env (JsonObject arguments) time s)) = 406"
    by (simp add: Transfer_post_def not_acceptable_def)
  have b: "\<forall>request error s'.
         TransferSchema_load env arguments time = Inr request \<longrightarrow>
         initiate_transfer env request s = (Inl error, s') \<longrightarrow>
         status_code (fst (Transfer_post env (JsonObject arguments) time s)) =
           (case error of
              ValidationError messages \<Rightarrow> 406
            | SenderNonceNotUniqueError message \<Rightarrow> 409
            | TransferInteractorBidNotAcceptedError message \<Rightarrow> 406
            | TransferInteractorResourceNotFoundError message \<Rightarrow> 500
            | OtherException message \<Rightarrow> 500)"
    by (simp add: Transfer_post_def Transfer_post_except_code)
  have c: "status_code (fst (Transfer_post env JsonUnreadable time s)) = 500"
    by (simp add: Transfer_post_def internal_server_error_def)
  have d: "status_code (fst (Transfer_post env JsonNotAnObject time s)) = 500"
    by (simp add: Transfer_post_def internal_server_error_def)
  have e: "uuid_load env task_id = None \<longrightarrow>
         status_code (fst (TransferStatus_get env task_id s)) = 404"
    by (simp add: TransferStatus_get_def TransferStatusSchema_load_def
        resource_not_found_def)
  have f: "\<forall>task_id_uuid error s'.
         uuid_load env task_id = Some task_id_uuid \<longrightarrow>
         find_transfer env task_id_uuid s = (Inl error, s') \<longrightarrow>
         status_code (fst (TransferStatus_get env task_id s)) =
           (case error of
              ValidationError messages \<Rightarrow> 404
            | SenderNonceNotUniqueError message \<Rightarrow> 500
            | TransferInteractorBidNotAcceptedError message \<Rightarrow> 500
            | TransferInteractorResourceNotFoundError message \<Rightarrow> 404
            | OtherException message \<Rightarrow> 500)"
    by (simp add: TransferStatus_get_def TransferStatusSchema_load_def
        TransferStatus_get_except_code)
  have g: "\<forall>messages. BidsSchema_load env query_arguments = Inl messages \<longrightarrow>
         status_code (fst (Bids_get env query_arguments s)) = 400"
    by (simp add: Bids_get_def bad_request_def)
  have h: "\<forall>source destination error s'.
         BidsSchema_load env query_arguments = Inr (source, destination) \<longrightarrow>
         get_current_bids env source destination s = (Inl error, s') \<longrightarrow>
         status_code (fst (Bids_get env query_arguments s)) =
           (case error of
              ValidationError messages \<Rightarrow> 400
            | SenderNonceNotUniqueError message \<Rightarrow> 500
            | TransferInteractorBidNotAcceptedError message \<Rightarrow> 500
            | TransferInteractorResourceNotFoundError message \<Rightarrow> 500
            | OtherException message \<Rightarrow> 500)"
    by (simp add: Bids_get_def Bids_get_except_code)
  from a b c d e f g h show ?thesis
    by blast
qed

lemma str_int_1337: "str_int 1337 = ''1337''"
  by code_simp

theorem request_boundary_status_codes_witness:
  "Transfer_post
       (mock_environment
          \<lparr>initiate_transfer :=
             (\<lambda>request s. (Inl (SenderNonceNotUniqueError ''nonce not unique''), s))\<rparr>)
       (JsonObject (mock_transfer_arguments 100)) 1700000000 []
     = (HttpResponse 409 (Message ''sender nonce 1337 is not unique''), [])
   \<and> Transfer_post
         (mock_environment
            \<lparr>initiate_transfer :=
               (\<lambda>request s.
                  (Inl (TransferInteractorBidNotAcceptedError ''bid not accepted''), s))\<rparr>)
         (JsonObject (mock_transfer_arguments 100)) 1700000000 []
       = (HttpResponse 406
            (Message ''bid has been rejected by service node: bid not accepted''), [])
   \<and> Transfer_post
         (mock_environment
            \<lparr>initiate_transfer :=
               (\<lambda>request s. (Inl (OtherException ''database unavailable''), s))\<rparr>)
         (JsonObject (mock_transfer_arguments 100)) 1700000000 []
       = (HttpResponse 500 NoMessage, [])
   \<and> status_code
         (fst (Transfer_post mock_environment (JsonObject (mock_transfer_arguments 0))
                 1700000000 [])) = 406
   \<and> TransferStatus_get mock_environment ''00000000-0000-0000-0000-000000000000'' []
       = (HttpResponse 404
            (Message ''task ID 00000000-0000-0000-0000-000000000000 is unknown''), [])
   \<and> status_code
         (fst (Bids_get mock_environment
                 \<lparr>arg_source_blockchain = Accepted 7,
                  arg_destination_blockchain = Accepted 1,
                  arg_bids_unknown = []\<rparr> [])) = 400"
proof -
  let ?nonce = "mock_environment
          \<lparr>initiate_transfer :=
             (\<lambda>request s. (Inl (SenderNonceNotUniqueError ''nonce not unique''), s))\<rparr>"
  let ?bid = "mock_environment
            \<lparr>initiate_transfer :=
               (\<lambda>request s.
                  (Inl (TransferInteractorBidNotAcceptedError ''bid not accepted''), s))\<rparr>"
  let ?other = "mock_environment
            \<lparr>initiate_transfer :=
               (\<lambda>request s. (Inl (OtherException ''database unavailable''), s))\<rparr>"
  let ?query = "\<lparr>arg_source_blockchain = Accepted 7,
                  arg_destination_blockchain = Accepted 1,
                  arg_bids_unknown = []\<rparr>"
  have l: "\<And>f. TransferSchema_load (mock_environment\<lparr>initiate_transfer := f\<rparr>)
             (mock_transfer_arguments 100) 1700000000 = Inr mock_request"
    by (simp add: TransferSchema_load_initiate_transfer
        mock_TransferSchema_load_amount_100)
  have n: "nonce mock_request = 1337"
    by (simp add: mock_request_def)
  have a: "Transfer_post ?nonce (JsonObject (mock_transfer_arguments 100)) 1700000000 []
     = (HttpResponse 409 (Message ''sender nonce 1337 is not unique''), [])"
    using request_boundary_status_codes [of ?nonce "mock_transfer_arguments 100"
        1700000000 "[]"]
    by (simp add: Transfer_post_def l n conflict_def str_int_1337)
  have b: "Transfer_post ?bid (JsonObject (mock_transfer_arguments 100)) 1700000000 []
       = (HttpResponse 406
            (Message ''bid has been rejected by service node: bid not accepted''), [])"
    using request_boundary_status_codes [of ?bid "mock_transfer_arguments 100"
        1700000000 "[]"]
    by (simp add: Transfer_post_def l not_acceptable_def)
  have c: "Transfer_post ?other (JsonObject (mock_transfer_arguments 100)) 1700000000 []
       = (HttpResponse 500 NoMessage, [])"
    using request_boundary_status_codes [of ?other "mock_transfer_arguments 100"
        1700000000 "[]"]
    by (simp add: Transfer_post_def l internal_server_error_def)
  have d: "status_code
         (fst (Transfer_post mock_environment (JsonObject (mock_transfer_arguments 0))
                 1700000000 [])) = 406"
    using request_boundary_status_codes [of mock_environment
        "mock_transfer_arguments 0" 1700000000 "[]"]
    by (simp add: mock_TransferSchema_load_amount_0)
  have e: "TransferStatus_get mock_environment
             ''00000000-0000-0000-0000-000000000000'' []
       = (HttpResponse 404
            (Message ''task ID 00000000-0000-0000-0000-000000000000 is unknown''), [])"
    using request_boundary_status_codes [of mock_environment _ _ "[]"
        "''00000000-0000-0000-0000-000000000000''"]
    by (simp add: TransferStatus_get_def TransferStatusSchema_load_def
        mock_environment_def resource_not_found_def)
  have "\<exists>messages. BidsSchema_load mock_environment ?query = Inl messages"
    by (simp add: BidsSchema_load_def mock_environment_def validated_def OneOf_def
        field_errors_def unknown_errors_def)
  then obtain messages where
    q: "BidsSchema_load mock_environment ?query = Inl messages" ..
  have f: "status_code (fst (Bids_get mock_environment ?query [])) = 400"
    using request_boundary_status_codes [of mock_environment _ _ "[]" _ ?query] q
    by simp
  from a b c d e f show ?thesis
    by simp
qed

end
